theory Spec2Isabelle
  imports Main "HOL-Library.Word"
begin

section \<open>Strings and the library functions the cache relies on\<close>

text \<open>
  Go strings are byte sequences; a \<^typ>\<open>string\<close> is a list of bytes. The functions of
  this section model the parts of Go's standard library that package \<open>httpcache\<close> calls.
  Header values are taken to be ASCII: \<open>TrimSpace\<close> and \<open>ToLower\<close> act on the ASCII
  range and leave bytes from 0x80 on as they are.
\<close>

definition isUpper :: "char \<Rightarrow> bool" where
  "isUpper c = (65 \<le> (of_char c :: nat) \<and> (of_char c :: nat) \<le> 90)"

definition isLower :: "char \<Rightarrow> bool" where
  "isLower c = (97 \<le> (of_char c :: nat) \<and> (of_char c :: nat) \<le> 122)"

definition isDigit :: "char \<Rightarrow> bool" where
  "isDigit c = (48 \<le> (of_char c :: nat) \<and> (of_char c :: nat) \<le> 57)"

definition toLowerByte :: "char \<Rightarrow> char" where
  "toLowerByte c = (if isUpper c then char_of ((of_char c :: nat) + 32) else c)"

definition toUpperByte :: "char \<Rightarrow> char" where
  "toUpperByte c = (if isLower c then char_of ((of_char c :: nat) - 32) else c)"

text \<open>\<open>strings.ToLower\<close> on ASCII.\<close>

definition ToLower :: "string \<Rightarrow> string" where
  "ToLower s = map toLowerByte s"

text \<open>The ASCII white space of \<open>strings.TrimSpace\<close>: tab, line feed, vertical tab,
  form feed, carriage return and space.\<close>

definition isSpace :: "char \<Rightarrow> bool" where
  "isSpace c = ((of_char c :: nat) \<in> {9, 10, 11, 12, 13, 32})"

definition TrimSpace :: "string \<Rightarrow> string" where
  "TrimSpace s = rev (dropWhile isSpace (rev (dropWhile isSpace s)))"

definition HasPrefix :: "string \<Rightarrow> string \<Rightarrow> bool" where
  "HasPrefix s p = (take (length p) s = p)"

text \<open>\<open>strings.IndexByte\<close>: the index of the first occurrence of the byte, or \<open>-1\<close>.\<close>

fun IndexByte :: "string \<Rightarrow> char \<Rightarrow> int" where
  "IndexByte [] c = - 1"
| "IndexByte (x # xs) c =
     (if x = c then 0
      else (let j = IndexByte xs c in if j = - 1 then - 1 else j + 1))"

text \<open>\<open>strings.Split\<close>: the pieces of \<open>s\<close> between the occurrences of \<open>sep\<close>; an empty
  separator explodes the string into its bytes.\<close>

fun genSplit :: "string \<Rightarrow> string \<Rightarrow> string \<Rightarrow> string list" where
  "genSplit sep cur [] = [cur]"
| "genSplit sep cur (x # xs) =
     (if sep \<noteq> [] \<and> take (length sep) (x # xs) = sep
      then cur # genSplit sep [] (drop (length sep) (x # xs))
      else genSplit sep (cur @ [x]) xs)"

definition Split :: "string \<Rightarrow> string \<Rightarrow> string list" where
  "Split s sep = (if sep = [] then map (\<lambda>c. [c]) s else genSplit sep [] s)"


text \<open>\<open>strconv.ParseUint(s, 10, 64)\<close> and \<open>strconv.ParseInt(s, 10, 64)\<close>: the value and
  the error. A byte that is not a decimal digit is a syntax error with value 0; a value out
  of range is a range error with the nearest representable value. The scan is left to
  right, so an overflow met before a bad byte is a range error.\<close>

datatype NumError = ErrSyntax | ErrRange

fun ParseUint_loop :: "int \<Rightarrow> string \<Rightarrow> int \<times> NumError option" where
  "ParseUint_loop n [] = (n, None)"
| "ParseUint_loop n (c # cs) =
     (if \<not> isDigit c then (0, Some ErrSyntax)
      else if n \<ge> (2 ^ 64 - 1) div 10 + 1 then (2 ^ 64 - 1, Some ErrRange)
      else (let n1 = n * 10 + ((of_char c :: int) - 48) in
            if n1 > 2 ^ 64 - 1 then (2 ^ 64 - 1, Some ErrRange)
            else ParseUint_loop n1 cs))"

definition ParseUint :: "string \<Rightarrow> int \<times> NumError option" where
  "ParseUint s = (if s = [] then (0, Some ErrSyntax) else ParseUint_loop 0 s)"

definition ParseInt :: "string \<Rightarrow> int \<times> NumError option" where
  "ParseInt s =
     (if s = [] then (0, Some ErrSyntax)
      else (let neg = (hd s = CHR ''-'');
                s1 = (if hd s = CHR ''+'' \<or> hd s = CHR ''-'' then tl s else s);
                (un, err) = ParseUint s1
            in if err = Some ErrSyntax then (0, err)
               else if \<not> neg \<and> un \<ge> 2 ^ 63 then (2 ^ 63 - 1, Some ErrRange)
               else if neg \<and> un > 2 ^ 63 then (- (2 ^ 63), Some ErrRange)
               else (if neg then - un else un, None)))"

section \<open>HTTP headers\<close>

text \<open>\<open>http.Header\<close> is a map from canonical header names to the list of their values; a
  nil header is the empty map.\<close>

type_synonym Header = "string \<rightharpoonup> string list"

text \<open>The token bytes of a header name (\<open>validHeaderFieldByte\<close>).\<close>

definition validHeaderFieldByte :: "char \<Rightarrow> bool" where
  "validHeaderFieldByte c =
     (isUpper c \<or> isLower c \<or> isDigit c \<or>
      (of_char c :: nat) \<in> {33, 35, 36, 37, 38, 39, 42, 43, 45, 46, 94, 95, 96, 124, 126})"

fun canonicalize :: "bool \<Rightarrow> string \<Rightarrow> string" where
  "canonicalize upper [] = []"
| "canonicalize upper (c # cs) =
     (let c' = (if upper \<and> isLower c then toUpperByte c
                else if \<not> upper \<and> isUpper c then toLowerByte c
                else c)
      in c' # canonicalize (c' = CHR ''-'') cs)"

text \<open>\<open>http.CanonicalHeaderKey\<close>: a name made of token bytes gets an upper-case first
  letter and an upper-case letter after each hyphen, the other letters in lower case; any
  other string is returned as it is.\<close>

definition CanonicalHeaderKey :: "string \<Rightarrow> string" where
  "CanonicalHeaderKey s = (if list_all validHeaderFieldByte s then canonicalize True s else s)"

text \<open>\<open>Header.Get\<close>: the first value under the canonical form of the key, or the empty
  string.\<close>

definition Get :: "Header \<Rightarrow> string \<Rightarrow> string" where
  "Get h key =
     (case h (CanonicalHeaderKey key) of
        None \<Rightarrow> []
      | Some [] \<Rightarrow> []
      | Some (v # _) \<Rightarrow> v)"

text \<open>The fields of \<open>http.Request\<close> and \<open>http.Response\<close> that the package reads; the
  header of a request is \<open>ReqHeader\<close> here. The strategies read \<open>resp.Request\<close> without a
  nil test: a response always comes with the request that obtained it.\<close>

record Request =
  Method :: string
  ReqHeader :: Header

record Response =
  StatusCode :: int
  Header :: Header
  Request :: Request

section \<open>Durations and instants\<close>

text \<open>A \<open>time.Duration\<close> is a signed 64-bit count of nanoseconds. An instant is the
  number of nanoseconds since January 1, year 1, 00:00:00 UTC, the zero \<open>time.Time\<close>.\<close>

type_synonym Duration = "64 word"
type_synonym Time = int

definition Second :: Duration where
  "Second = 1000000000"

definition Hour :: Duration where
  "Hour = 3600 * Second"

definition IsZero :: "Time \<Rightarrow> bool" where
  "IsZero t = (t = 0)"

text \<open>\<open>Time.Sub\<close>: the difference, or the largest or smallest duration when the
  difference does not fit.\<close>

definition Sub :: "Time \<Rightarrow> Time \<Rightarrow> Duration" where
  "Sub t u =
     (if - (2 ^ 63) \<le> t - u \<and> t - u \<le> 2 ^ 63 - 1 then word_of_int (t - u)
      else if t < u then word_of_int (- (2 ^ 63))
      else word_of_int (2 ^ 63 - 1))"

text \<open>\<open>time.Since\<close>, with the reading of the clock as an argument.\<close>

definition Since :: "Time \<Rightarrow> Time \<Rightarrow> Duration" where
  "Since now t = Sub now t"

text \<open>\<open>time.Parse(time.RFC1123, v)\<close> depends on the time zones known to the machine, so
  the functions below take it as an argument: \<open>Some t\<close> when the value parses to the instant
  \<open>t\<close>, \<open>None\<close> when it returns an error.\<close>

type_synonym TimeParser = "string \<Rightarrow> Time option"

section \<open>The directive parser (utils.go)\<close>

definition split :: "string \<Rightarrow> string \<Rightarrow> string list" where
  "split str sep = map ToLower (filter (\<lambda>v. v \<noteq> []) (map TrimSpace (Split str sep)))"

fun matches_loop :: "Header \<Rightarrow> Header \<Rightarrow> string list \<Rightarrow> bool" where
  "matches_loop rq rs [] = True"
| "matches_loop rq rs (h # hs) =
     (let key = CanonicalHeaderKey h in
      if key \<noteq> [] then (if Get rq key \<noteq> Get rs key then False else matches_loop rq rs hs)
      else matches_loop rq rs hs)"

definition matches :: "Request \<Rightarrow> Response \<Rightarrow> bool" where
  "matches req resp =
     (let vary = Get (ReqHeader req) ''Vary''
      in matches_loop (ReqHeader req) (Header resp) (split vary '',''))"

definition nocache :: "Header \<Rightarrow> bool" where
  "nocache h =
     (let c = Get h ''Cache-Control''; p = Get h ''Pragma''
      in if ''no-cache'' \<in> set (split c '','') then True
         else if ''no-cache'' \<in> set (split p '','') then True
         else False)"

definition nostore :: "Header \<Rightarrow> bool" where
  "nostore h = (let c = Get h ''Cache-Control'' in ''no-store'' \<in> set (split c '',''))"

fun maxage_loop :: "string list \<Rightarrow> Duration \<times> bool" where
  "maxage_loop [] = (0, False)"
| "maxage_loop (d # ds) =
     (if HasPrefix d ''max-age'' then
        (let j = IndexByte d CHR ''=''
         in if j \<noteq> - 1
            then (word_of_int (fst (ParseInt (drop (nat (j + 1)) d))) * Second, True)
            else maxage_loop ds)
      else maxage_loop ds)"

definition maxage :: "Header \<Rightarrow> Duration \<times> bool" where
  "maxage h = maxage_loop (split (Get h ''Cache-Control'') '','')"

definition expires :: "TimeParser \<Rightarrow> Header \<Rightarrow> Time \<times> bool" where
  "expires P h =
     (let v = Get h ''Expires''
      in if v \<noteq> [] then (case P v of Some t \<Rightarrow> (t, \<not> IsZero t) | None \<Rightarrow> (0, False))
         else (0, False))"

definition date :: "TimeParser \<Rightarrow> Header \<Rightarrow> Time \<times> bool" where
  "date P h =
     (let v = Get h ''Date''
      in if v \<noteq> [] then (case P v of Some t \<Rightarrow> (t, \<not> IsZero t) | None \<Rightarrow> (0, False))
         else (0, False))"

definition lifetime :: "TimeParser \<Rightarrow> Response \<Rightarrow> Duration \<times> bool" where
  "lifetime P resp =
     (case maxage (Header resp) of
        (age, ok) \<Rightarrow>
          if ok then (age, True)
          else (case expires P (Header resp) of
                  (exp, ok1) \<Rightarrow>
                    if ok1 then
                      (case date P (Header resp) of
                         (d, ok2) \<Rightarrow> if ok2 then (Sub exp d, True) else (- 1, False))
                    else (- 1, False)))"


section \<open>The strategies\<close>

datatype Freshness = Fresh | Stale | Transparent

text \<open>Modelled from the spec: \<open>directivesFrom\<close> and the method \<open>has\<close> of its result are
  called by \<open>RFC7234.fresh\<close> and are not in the sources. The spec describes a directive set
  as the deduplicated collection of lower-case tokens of the \<open>Cache-Control\<close> and
  \<open>Pragma\<close> values, comma-separated and trimmed.\<close>

definition directivesFrom :: "Header \<Rightarrow> string list" where
  "directivesFrom h =
     remdups (split (Get h ''Cache-Control'') '','' @ split (Get h ''Pragma'') '','')"

definition has :: "string list \<Rightarrow> string \<Rightarrow> bool" where
  "has d t = (t \<in> set d)"

subsection \<open>RFC7234\<close>



definition RFC7234_fresh :: "TimeParser \<Rightarrow> Response \<Rightarrow> Freshness" where
  "RFC7234_fresh P resp =
     (let req = Request resp in
      if \<not> matches req resp then Transparent
      else (let reqd = directivesFrom (ReqHeader req);
                resd = directivesFrom (Header resp)
            in if has reqd ''no-cache'' \<or> has resd ''no-cache'' then Stale
               else (case lifetime P resp of
                       (age, ok) \<Rightarrow> if ok \<and> 0 <s age then Fresh else Stale)))"

subsection \<open>Aggressive\<close>

record Aggressive =
  Lifetime :: Duration



definition Aggressive_lifetime :: "Aggressive \<Rightarrow> Duration" where
  "Aggressive_lifetime a = (if 0 <s Lifetime a then Lifetime a else 24 * Hour)"

text \<open>\<open>Aggressive.fresh\<close> reads the clock through \<open>time.Since\<close>; the reading is the
  argument \<open>now\<close>.\<close>

definition Aggressive_fresh :: "Aggressive \<Rightarrow> TimeParser \<Rightarrow> Time \<Rightarrow> Response \<Rightarrow> Freshness" where
  "Aggressive_fresh a P now resp =
     (case date P (Header resp) of
        (d, ok) \<Rightarrow>
          if ok then (if Since now d <s Aggressive_lifetime a then Fresh else Transparent)
          else Transparent)"

subsection \<open>The Strategy interface\<close>

text \<open>The two implementations of the interface, and its three methods by dynamic
  dispatch. Every method runs in an environment that offers the time parser and the
  clock; which of them an implementation uses is its own affair.\<close>

datatype Strategy = RFC7234 | AggressiveStrategy Aggressive



fun fresh :: "TimeParser \<Rightarrow> Time \<Rightarrow> Strategy \<Rightarrow> Response \<Rightarrow> Freshness" where
  "fresh P now RFC7234 resp = RFC7234_fresh P resp"
| "fresh P now (AggressiveStrategy a) resp = Aggressive_fresh a P now resp"

section \<open>The in-memory storage\<close>

text \<open>A byte slice is \<open>None\<close> when nil. The store is the content of the \<open>sync.Map\<close>,
  seen by one caller at a time.\<close>

type_synonym bytes = "8 word list option"
type_synonym error = string

record Memstore =
  c :: "64 word \<rightharpoonup> bytes"

definition Memstore_Store :: "Memstore \<Rightarrow> 64 word \<Rightarrow> bytes \<Rightarrow> Memstore \<times> error option" where
  "Memstore_Store m key val = (m\<lparr>c := (c m)(key \<mapsto> val)\<rparr>, None)"

definition Memstore_Load :: "Memstore \<Rightarrow> 64 word \<Rightarrow> bytes \<times> error option" where
  "Memstore_Load m key = (case c m key of Some v \<Rightarrow> (v, None) | None \<Rightarrow> (None, None))"

text \<open>A run of \<open>Store\<close> calls, in order, from a given store.\<close>

fun Memstore_Stores :: "Memstore \<Rightarrow> (64 word \<times> bytes) list \<Rightarrow> Memstore" where
  "Memstore_Stores m [] = m"
| "Memstore_Stores m ((key, val) # kvs) = Memstore_Stores (fst (Memstore_Store m key val)) kvs"

section \<open>The cache and its options\<close>

text \<open>An interface value is \<open>None\<close> when nil. A storage is the memory store (here with
  its content at construction) or some other implementation; a client is the default
  HTTP client or some other implementation.\<close>

datatype Storage = MemstoreStorage Memstore | OtherStorage nat
datatype Client = DefaultClient | OtherClient nat

record Cache =
  storage :: Storage
  strategy :: Strategy
  client :: Client

text \<open>An option receives the cache under construction, may update it, and returns an
  error or nil.\<close>

type_synonym Option = "Cache \<Rightarrow> error option \<times> Cache"

definition WithStrategy :: "Strategy option \<Rightarrow> Option" where
  "WithStrategy s ca =
     (case s of
        None \<Rightarrow> (Some ''httpcache: strategy must be non-nil'', ca)
      | Some s' \<Rightarrow> (None, ca\<lparr>strategy := s'\<rparr>))"

definition WithStorage :: "Storage option \<Rightarrow> Option" where
  "WithStorage s ca =
     (case s of
        None \<Rightarrow> (Some ''httpcache: storage must be non-nil'', ca)
      | Some s' \<Rightarrow> (None, ca\<lparr>storage := s'\<rparr>))"

definition WithClient :: "Client option \<Rightarrow> Option" where
  "WithClient cl ca =
     (case cl of
        None \<Rightarrow> (Some ''httpcache: client must be non-nil'', ca)
      | Some cl' \<Rightarrow> (None, ca\<lparr>client := cl'\<rparr>))"

fun applyOptions :: "Cache \<Rightarrow> Option list \<Rightarrow> error + Cache" where
  "applyOptions ca [] = Inr ca"
| "applyOptions ca (opt # opts) =
     (case opt ca of
        (Some err, _) \<Rightarrow> Inl err
      | (None, ca') \<Rightarrow> applyOptions ca' opts)"

definition NewCache :: "Option list \<Rightarrow> error + Cache" where
  "NewCache opts =
     applyOptions \<lparr>storage = MemstoreStorage \<lparr>c = Map.empty\<rparr>, strategy = RFC7234,
                    client = DefaultClient\<rparr> opts"


section \<open>A time parser for concrete headers\<close>

text \<open>The values \<open>Www, DD Mon YYYY HH:MM:SS UTC\<close>, with two-digit fields and the zone
  \<open>UTC\<close>, parse under \<open>time.RFC1123\<close> to the same instant on every machine: the week
  day is read and not compared with the date, the day must exist in the month, and the zone
  \<open>UTC\<close> has offset zero. \<open>parseUTC\<close> parses exactly these values and rejects every
  other one; it stands for \<open>time.Parse\<close> where the functions are evaluated at concrete
  headers of this shape.\<close>

definition shortDayNames :: "string list" where
  "shortDayNames = [''Sun'', ''Mon'', ''Tue'', ''Wed'', ''Thu'', ''Fri'', ''Sat'']"

definition shortMonthNames :: "string list" where
  "shortMonthNames = [''Jan'', ''Feb'', ''Mar'', ''Apr'', ''May'', ''Jun'', ''Jul'', ''Aug'',
     ''Sep'', ''Oct'', ''Nov'', ''Dec'']"

fun lookup :: "string list \<Rightarrow> string \<Rightarrow> int option" where
  "lookup [] v = None"
| "lookup (x # xs) v = (if x = v then Some 0 else map_option (\<lambda>i. i + 1) (lookup xs v))"

definition atoi :: "string \<Rightarrow> int option" where
  "atoi s =
     (if s \<noteq> [] \<and> list_all isDigit s
      then Some (foldl (\<lambda>n ch. n * 10 + ((of_char ch :: int) - 48)) 0 s)
      else None)"

definition isLeap :: "int \<Rightarrow> bool" where
  "isLeap y = (y mod 4 = 0 \<and> (y mod 100 \<noteq> 0 \<or> y mod 400 = 0))"

definition daysBefore :: "int list" where
  "daysBefore = [0, 31, 59, 90, 120, 151, 181, 212, 243, 273, 304, 334, 365]"

definition daysIn :: "int \<Rightarrow> int \<Rightarrow> int" where
  "daysIn m y =
     (if m = 2 \<and> isLeap y then 29 else daysBefore ! nat m - daysBefore ! nat (m - 1))"

text \<open>Days from January 1, year 1 to the given day of the proleptic Gregorian calendar.\<close>

definition daysSinceZero :: "int \<Rightarrow> int \<Rightarrow> int \<Rightarrow> int" where
  "daysSinceZero y m d =
     365 * (y - 1) + (y - 1) div 4 - (y - 1) div 100 + (y - 1) div 400
     + daysBefore ! nat (m - 1) + (if m > 2 \<and> isLeap y then 1 else 0) + (d - 1)"

definition parseUTC :: TimeParser where
  "parseUTC v =
     (if length v = 29 \<and> take 2 (drop 3 v) = '', '' \<and> v ! 7 = CHR '' '' \<and> v ! 11 = CHR '' ''
         \<and> v ! 16 = CHR '' '' \<and> v ! 19 = CHR '':'' \<and> v ! 22 = CHR '':'' \<and> drop 25 v = '' UTC''
      then
        (case lookup shortDayNames (take 3 v) of None \<Rightarrow> None | Some wd \<Rightarrow>
        (case atoi (take 2 (drop 5 v)) of None \<Rightarrow> None | Some d \<Rightarrow>
        (case lookup shortMonthNames (take 3 (drop 8 v)) of None \<Rightarrow> None | Some mo \<Rightarrow>
        (case atoi (take 4 (drop 12 v)) of None \<Rightarrow> None | Some y \<Rightarrow>
        (case atoi (take 2 (drop 17 v)) of None \<Rightarrow> None | Some hh \<Rightarrow>
        (case atoi (take 2 (drop 20 v)) of None \<Rightarrow> None | Some mi \<Rightarrow>
        (case atoi (take 2 (drop 23 v)) of None \<Rightarrow> None | Some ss \<Rightarrow>
           if hh < 24 \<and> mi < 60 \<and> ss < 60 \<and> 1 \<le> d \<and> d \<le> daysIn (mo + 1) y
           then Some ((daysSinceZero y (mo + 1) d * 86400 + hh * 3600 + mi * 60 + ss)
                      * 1000000000)
           else None)))))))
      else None)"

section \<open>Evaluation\<close>

lemmas string_defs = isUpper_def isLower_def isDigit_def toLowerByte_def toUpperByte_def
  ToLower_def isSpace_def TrimSpace_def HasPrefix_def Split_def ParseUint_def ParseInt_def
  Let_def char_of_eq_iff

lemmas header_defs = validHeaderFieldByte_def CanonicalHeaderKey_def Get_def split_def
  nostore_def nocache_def maxage_def directivesFrom_def has_def matches_def Second_def
  Hour_def

lemmas time_defs = parseUTC_def atoi_def shortDayNames_def shortMonthNames_def isLeap_def
  daysBefore_def daysIn_def daysSinceZero_def IsZero_def expires_def date_def

lemma maxage_5: "maxage [''Cache-Control'' \<mapsto> [''max-age=5'']] = (5000000000, True)"
  by (simp add: string_defs header_defs)



lemma sless_5: "(0 :: 64 word) <s 5000000000"
  by (simp add: word_sless_alt)

lemma sint_word_of_int_64:
  "- (2 ^ 63) \<le> x \<Longrightarrow> x \<le> 2 ^ 63 - 1 \<Longrightarrow> sint (word_of_int x :: 64 word) = x"
  by (simp add: sint_sbintrunc' signed_take_bit_int_eq_self)

lemma sint_Sub_exact:
  assumes "- (2 ^ 63) \<le> t - u" and "t - u \<le> 2 ^ 63 - 1"
  shows "sint (Sub t u) = t - u"
proof -
  have "Sub t u = word_of_int (t - u)"
    using assms by (simp add: Sub_def)
  then show ?thesis
    using assms by (simp only: sint_word_of_int_64)
qed

lemma parse_zero: "parseUTC ''Mon, 01 Jan 0001 00:00:00 UTC'' = Some 0"
  by (simp add: time_defs isDigit_def)

lemma parse_2006: "parseUTC ''Mon, 02 Jan 2006 15:04:05 UTC'' = Some 63271811045000000000"
  by (simp add: time_defs isDigit_def)

lemma parse_2006_plus_minute:
  "parseUTC ''Mon, 02 Jan 2006 15:05:05 UTC'' = Some 63271811105000000000"
  by (simp add: time_defs isDigit_def)

lemma canon_Expires: "CanonicalHeaderKey ''Expires'' = ''Expires''"
  by (simp add: string_defs header_defs)
lemma canon_Date: "CanonicalHeaderKey ''Date'' = ''Date''"
  by (simp add: string_defs header_defs)
lemma canon_Cache_Control: "CanonicalHeaderKey ''Cache-Control'' = ''Cache-Control''"
  by (simp add: string_defs header_defs)
lemma canon_Pragma: "CanonicalHeaderKey ''Pragma'' = ''Pragma''"
  by (simp add: string_defs header_defs)
lemma canon_Vary: "CanonicalHeaderKey ''Vary'' = ''Vary''"
  by (simp add: string_defs header_defs)
lemmas canon_simps = canon_Expires canon_Date canon_Cache_Control canon_Pragma canon_Vary

lemma split_empty: "split [] '','' = []"
  by (simp add: string_defs header_defs)

lemma parse_2026_11_01: "parseUTC ''Sun, 01 Nov 2026 00:00:00 UTC'' = Some 63929088000000000000"
  by (simp add: time_defs isDigit_def)

lemma parse_2026_10_31: "parseUTC ''Sat, 31 Oct 2026 22:00:00 UTC'' = Some 63929080800000000000"
  by (simp add: time_defs isDigit_def)

lemma parse_2026_10_30: "parseUTC ''Fri, 30 Oct 2026 00:00:00 UTC'' = Some 63928915200000000000"
  by (simp add: time_defs isDigit_def)

lemma lifetime_maxage:
  "snd (maxage (Header resp)) \<Longrightarrow> lifetime P resp = (fst (maxage (Header resp)), True)"
  by (cases "maxage (Header resp)") (simp add: lifetime_def)

section \<open>Cacheability of requests\<close>



section \<open>Storability of responses\<close>



section \<open>Freshness under RFC7234\<close>

text \<open>The directive set of \<open>RFC7234.fresh\<close> holds \<open>no-cache\<close> exactly when \<open>nocache\<close>
  of utils.go finds it in \<open>Cache-Control\<close> or \<open>Pragma\<close>.\<close>

lemma has_no_cache: "has (directivesFrom h) ''no-cache'' = nocache h"
  by (auto simp add: has_def directivesFrom_def nocache_def Let_def)

text \<open>
  C3. When the selecting headers of a response match its request, \<open>RFC7234.fresh\<close> is
  Stale if the request or the response carries \<open>no-cache\<close>, whatever \<open>lifetime\<close>
  says; otherwise it is Fresh if \<open>lifetime\<close> reports ok with a positive duration, and
  Stale if not.
\<close>

theorem fresh_after_match:
  "matches (Request resp) resp \<Longrightarrow>
   fresh P now RFC7234 resp =
     (if has (directivesFrom (ReqHeader (Request resp))) ''no-cache''
         \<or> has (directivesFrom (Header resp)) ''no-cache'' then Stale
      else if snd (lifetime P resp) \<and> 0 <s fst (lifetime P resp) then Fresh
      else Stale)"
  by (simp add: RFC7234_fresh_def Let_def split: prod.splits)

theorem fresh_after_match_witness:
  "fresh parseUTC 0 RFC7234
     \<lparr>StatusCode = 200, Header = [''Cache-Control'' \<mapsto> [''max-age=5'']],
      Request = \<lparr>Method = ''GET'', ReqHeader = Map.empty\<rparr>\<rparr> = Fresh
   \<and> fresh parseUTC 0 RFC7234
     \<lparr>StatusCode = 200, Header = [''Cache-Control'' \<mapsto> [''max-age=5, no-cache'']],
      Request = \<lparr>Method = ''GET'', ReqHeader = Map.empty\<rparr>\<rparr> = Stale
   \<and> fresh parseUTC 0 RFC7234
     \<lparr>StatusCode = 200, Header = [''Cache-Control'' \<mapsto> [''max-age=5'']],
      Request = \<lparr>Method = ''GET'', ReqHeader = [''Pragma'' \<mapsto> [''no-cache'']]\<rparr>\<rparr> = Stale
   \<and> fresh parseUTC 0 RFC7234
     \<lparr>StatusCode = 200, Header = Map.empty,
      Request = \<lparr>Method = ''GET'', ReqHeader = Map.empty\<rparr>\<rparr> = Stale"
proof -
  let ?rq = "\<lparr>Method = ''GET'', ReqHeader = Map.empty\<rparr>"
  let ?r1 = "\<lparr>StatusCode = 200, Header = [''Cache-Control'' \<mapsto> [''max-age=5'']], Request = ?rq\<rparr>"
  let ?r2 = "\<lparr>StatusCode = 200, Header = [''Cache-Control'' \<mapsto> [''max-age=5, no-cache'']],
      Request = ?rq\<rparr>"
  let ?r3 = "\<lparr>StatusCode = 200, Header = [''Cache-Control'' \<mapsto> [''max-age=5'']],
      Request = \<lparr>Method = ''GET'', ReqHeader = [''Pragma'' \<mapsto> [''no-cache'']]\<rparr>\<rparr>"
  let ?r4 = "\<lparr>StatusCode = 200, Header = Map.empty, Request = ?rq\<rparr>"
  have m1: "matches (Request ?r1) ?r1" by (simp add: string_defs header_defs)
  have m2: "matches (Request ?r2) ?r2" by (simp add: string_defs header_defs)
  have m3: "matches (Request ?r3) ?r3" by (simp add: string_defs header_defs)
  have m4: "matches (Request ?r4) ?r4" by (simp add: string_defs header_defs)
  have d0: "directivesFrom Map.empty = []" by (simp add: string_defs header_defs)
  have d1: "directivesFrom [''Cache-Control'' \<mapsto> [''max-age=5'']] = [''max-age=5'']"
    by (simp add: string_defs header_defs)
  have d2: "directivesFrom [''Cache-Control'' \<mapsto> [''max-age=5, no-cache'']]
      = [''max-age=5'', ''no-cache'']"
    by (simp add: string_defs header_defs)
  have d3: "directivesFrom [''Pragma'' \<mapsto> [''no-cache'']] = [''no-cache'']"
    by (simp add: string_defs header_defs)
  have l1: "lifetime parseUTC ?r1 = (5000000000, True)"
    by (simp add: lifetime_def maxage_5)
  have l3: "lifetime parseUTC ?r3 = (5000000000, True)"
    by (simp add: lifetime_def maxage_5)
  have l4: "lifetime parseUTC ?r4 = (- 1, False)"
    by (simp add: lifetime_def string_defs header_defs time_defs)
  show ?thesis
    using fresh_after_match [OF m1, of parseUTC 0] fresh_after_match [OF m2, of parseUTC 0]
      fresh_after_match [OF m3, of parseUTC 0] fresh_after_match [OF m4, of parseUTC 0]
    by (simp add: d0 d1 d2 d3 l1 l3 l4 has_def sless_5)
qed

section \<open>Selecting headers\<close>

text \<open>
  C1. \<open>matches\<close> takes the header names from the \<open>Vary\<close> value of the request, not of
  the response. A stored response with \<open>Vary: Accept-Language\<close>, \<open>Accept-Language: en-US\<close>
  and \<open>max-age=5\<close>, presented for a request with \<open>Accept-Language: fr-FR\<close>, is Fresh;
  the same headers with the \<open>Vary\<close> line moved to the request give Transparent.
\<close>

theorem fresh_response_Vary_unread:
  "fresh parseUTC 0 RFC7234
     \<lparr>StatusCode = 200,
      Header = [''Vary'' \<mapsto> [''Accept-Language''], ''Accept-Language'' \<mapsto> [''en-US''],
                ''Cache-Control'' \<mapsto> [''max-age=5'']],
      Request = \<lparr>Method = ''GET'', ReqHeader = [''Accept-Language'' \<mapsto> [''fr-FR'']]\<rparr>\<rparr> = Fresh
   \<and> fresh parseUTC 0 RFC7234
     \<lparr>StatusCode = 200,
      Header = [''Accept-Language'' \<mapsto> [''en-US''], ''Cache-Control'' \<mapsto> [''max-age=5'']],
      Request = \<lparr>Method = ''GET'',
                 ReqHeader = [''Vary'' \<mapsto> [''Accept-Language''],
                              ''Accept-Language'' \<mapsto> [''fr-FR'']]\<rparr>\<rparr> = Transparent"
proof -
  let ?h1 = "[''Vary'' \<mapsto> [''Accept-Language''], ''Accept-Language'' \<mapsto> [''en-US''],
                ''Cache-Control'' \<mapsto> [''max-age=5'']]"
  let ?q1 = "[''Accept-Language'' \<mapsto> [''fr-FR'']]"
  let ?r1 = "\<lparr>StatusCode = 200, Header = ?h1, Request = \<lparr>Method = ''GET'', ReqHeader = ?q1\<rparr>\<rparr>"
  let ?h2 = "[''Accept-Language'' \<mapsto> [''en-US''], ''Cache-Control'' \<mapsto> [''max-age=5'']]"
  let ?q2 = "[''Vary'' \<mapsto> [''Accept-Language''], ''Accept-Language'' \<mapsto> [''fr-FR'']]"
  let ?r2 = "\<lparr>StatusCode = 200, Header = ?h2, Request = \<lparr>Method = ''GET'', ReqHeader = ?q2\<rparr>\<rparr>"
  have m1: "matches (Request ?r1) ?r1" by (simp add: string_defs header_defs)
  have m2: "\<not> matches (Request ?r2) ?r2" by (simp add: string_defs header_defs)
  have dq: "directivesFrom ?q1 = []" by (simp add: string_defs header_defs)
  have dh: "directivesFrom ?h1 = [''max-age=5'']" by (simp add: string_defs header_defs)
  have ma: "maxage ?h1 = (5000000000, True)" by (simp add: string_defs header_defs)
  have f1: "RFC7234_fresh parseUTC ?r1 = Fresh"
    using m1 by (simp add: RFC7234_fresh_def lifetime_def dq dh ma has_def sless_5)
  have f2: "RFC7234_fresh parseUTC ?r2 = Transparent"
    using m2 by (simp add: RFC7234_fresh_def)
  show ?thesis using f1 f2 by simp
qed

section \<open>RFC7234 freshness does not read the clock\<close>

lemma matches_headers_only:
  "Header resp' = Header resp \<Longrightarrow> ReqHeader req' = ReqHeader req \<Longrightarrow>
   matches req' resp' = matches req resp"
  by (simp add: matches_def)

lemma lifetime_headers_only:
  "Header resp' = Header resp \<Longrightarrow> lifetime P resp' = lifetime P resp"
  by (simp add: lifetime_def cong del: prod.case_cong_weak if_weak_cong)

lemma RFC7234_fresh_headers_only:
  "Header resp' = Header resp \<Longrightarrow> ReqHeader (Request resp') = ReqHeader (Request resp) \<Longrightarrow>
   RFC7234_fresh P resp' = RFC7234_fresh P resp"
  using matches_headers_only [of resp' resp "Request resp'" "Request resp"]
    lifetime_headers_only [of resp' resp P]
  by (simp add: RFC7234_fresh_def Let_def)

text \<open>
  C10. The interface hands every \<open>fresh\<close> method the reading of the clock, and
  \<open>RFC7234.fresh\<close> does not use it: its verdict on a response is the same at any two
  times, and it is the same for two responses that agree on the response headers and on the
  request headers. So a response whose selecting headers match, that carries no
  \<open>no-cache\<close> on either side and whose \<open>max-age\<close> is a positive duration, is Fresh at
  every time, whatever its \<open>Date\<close>.
\<close>

theorem RFC7234_fresh_clock_free:
  "fresh P t1 RFC7234 resp = fresh P t2 RFC7234 resp
   \<and> (Header resp' = Header resp \<and> ReqHeader (Request resp') = ReqHeader (Request resp) \<longrightarrow>
        fresh P t1 RFC7234 resp' = fresh P t2 RFC7234 resp)
   \<and> (matches (Request resp) resp
        \<and> \<not> has (directivesFrom (ReqHeader (Request resp))) ''no-cache''
        \<and> \<not> has (directivesFrom (Header resp)) ''no-cache''
        \<and> snd (maxage (Header resp)) \<and> 0 <s fst (maxage (Header resp)) \<longrightarrow>
        fresh P now RFC7234 resp = Fresh)"
proof -
  have "fresh P now RFC7234 resp = Fresh"
    if "matches (Request resp) resp"
      and "\<not> has (directivesFrom (ReqHeader (Request resp))) ''no-cache''"
      and "\<not> has (directivesFrom (Header resp)) ''no-cache''"
      and "snd (maxage (Header resp))" and "0 <s fst (maxage (Header resp))"
    using that by (simp add: RFC7234_fresh_def lifetime_maxage Let_def)
  then show ?thesis
    using RFC7234_fresh_headers_only [of resp' resp P] by simp
qed

theorem RFC7234_fresh_clock_free_witness:
  "fresh parseUTC 63271811045000000000 RFC7234
     \<lparr>StatusCode = 200,
      Header = [''Date'' \<mapsto> [''Mon, 02 Jan 2006 15:04:05 UTC''],
                ''Cache-Control'' \<mapsto> [''max-age=5'']],
      Request = \<lparr>Method = ''GET'', ReqHeader = Map.empty\<rparr>\<rparr> = Fresh
   \<and> fresh parseUTC 63929088000000000000 RFC7234
     \<lparr>StatusCode = 200,
      Header = [''Date'' \<mapsto> [''Mon, 02 Jan 2006 15:04:05 UTC''],
                ''Cache-Control'' \<mapsto> [''max-age=5'']],
      Request = \<lparr>Method = ''GET'', ReqHeader = Map.empty\<rparr>\<rparr> = Fresh"
proof -
  let ?h = "[''Date'' \<mapsto> [''Mon, 02 Jan 2006 15:04:05 UTC''], ''Cache-Control'' \<mapsto> [''max-age=5'']]"
  let ?r = "\<lparr>StatusCode = 200, Header = ?h, Request = \<lparr>Method = ''GET'', ReqHeader = Map.empty\<rparr>\<rparr>"
  have m: "matches (Request ?r) ?r" by (simp add: string_defs header_defs)
  have d0: "directivesFrom Map.empty = []" by (simp add: string_defs header_defs)
  have d1: "directivesFrom ?h = [''max-age=5'']" by (simp add: string_defs header_defs)
  have ma: "maxage ?h = (5000000000, True)" by (simp add: string_defs header_defs)
  show ?thesis
    using RFC7234_fresh_clock_free [of parseUTC 63271811045000000000 ?r 63929088000000000000 ?r
        63271811045000000000] m
    by (simp add: d0 d1 ma has_def sless_5)
qed

section \<open>The lifetime of a response\<close>

lemma expires_ok_iff:
  "snd (expires P h) \<longleftrightarrow>
     (\<exists>t. Get h ''Expires'' \<noteq> [] \<and> P (Get h ''Expires'') = Some t \<and> t \<noteq> 0)"
  by (auto simp add: expires_def IsZero_def Let_def split: option.splits)

lemma date_ok_iff:
  "snd (date P h) \<longleftrightarrow>
     (\<exists>t. Get h ''Date'' \<noteq> [] \<and> P (Get h ''Date'') = Some t \<and> t \<noteq> 0)"
  by (auto simp add: date_def IsZero_def Let_def split: option.splits)

lemma expires_value:
  "Get h ''Expires'' \<noteq> [] \<Longrightarrow> P (Get h ''Expires'') = Some t \<Longrightarrow> expires P h = (t, t \<noteq> 0)"
  by (simp add: expires_def IsZero_def)

lemma date_value:
  "Get h ''Date'' \<noteq> [] \<Longrightarrow> P (Get h ''Date'') = Some t \<Longrightarrow> date P h = (t, t \<noteq> 0)"
  by (simp add: date_def IsZero_def)

text \<open>
  C4, as the code has it. \<open>lifetime\<close> reports ok exactly when \<open>maxage\<close> reports a
  \<open>max-age\<close> directive, or the \<open>Expires\<close> and \<open>Date\<close> headers are both present, both
  parse, and neither is the zero time. With a \<open>max-age\<close> directive the result is the
  duration of \<open>maxage\<close>; otherwise, in the second case, it is \<open>Expires.Sub(Date)\<close>, which
  is the difference of the two instants whenever that fits a duration; in every other case
  the result is \<open>(-1, false)\<close>.
\<close>

theorem lifetime_ok_iff:
  "(snd (lifetime P resp) \<longleftrightarrow>
      snd (maxage (Header resp))
      \<or> (\<exists>e d. Get (Header resp) ''Expires'' \<noteq> [] \<and> P (Get (Header resp) ''Expires'') = Some e
                \<and> e \<noteq> 0
                \<and> Get (Header resp) ''Date'' \<noteq> [] \<and> P (Get (Header resp) ''Date'') = Some d
                \<and> d \<noteq> 0))
   \<and> (snd (maxage (Header resp)) \<longrightarrow>
        lifetime P resp = (fst (maxage (Header resp)), True))
   \<and> (\<not> snd (maxage (Header resp))
        \<and> Get (Header resp) ''Expires'' \<noteq> [] \<and> P (Get (Header resp) ''Expires'') = Some e
        \<and> e \<noteq> 0
        \<and> Get (Header resp) ''Date'' \<noteq> [] \<and> P (Get (Header resp) ''Date'') = Some d
        \<and> d \<noteq> 0 \<longrightarrow>
        lifetime P resp = (Sub e d, True)
        \<and> (- (2 ^ 63) \<le> e - d \<and> e - d \<le> 2 ^ 63 - 1 \<longrightarrow> sint (fst (lifetime P resp)) = e - d))
   \<and> (\<not> snd (lifetime P resp) \<longrightarrow> lifetime P resp = (- 1, False))"
proof -
  have ok: "snd (lifetime P resp) \<longleftrightarrow>
      snd (maxage (Header resp)) \<or> (snd (expires P (Header resp)) \<and> snd (date P (Header resp)))"
    by (auto simp add: lifetime_def split: prod.splits)
  have ma: "snd (maxage (Header resp)) \<longrightarrow> lifetime P resp = (fst (maxage (Header resp)), True)"
    by (auto simp add: lifetime_def split: prod.splits)
  have ed: "\<not> snd (maxage (Header resp))
        \<and> Get (Header resp) ''Expires'' \<noteq> [] \<and> P (Get (Header resp) ''Expires'') = Some e
        \<and> e \<noteq> 0
        \<and> Get (Header resp) ''Date'' \<noteq> [] \<and> P (Get (Header resp) ''Date'') = Some d
        \<and> d \<noteq> 0 \<longrightarrow>
        lifetime P resp = (Sub e d, True)"
    by (auto simp add: lifetime_def expires_value date_value split: prod.splits)
  have no: "\<not> snd (lifetime P resp) \<longrightarrow> lifetime P resp = (- 1, False)"
    by (auto simp add: lifetime_def split: prod.splits if_splits)
  show ?thesis
    using ma ed no by (auto simp add: ok expires_ok_iff date_ok_iff sint_Sub_exact)
qed

text \<open>
  C4 as the specification states it, with "present and parsable" for both headers, fails where a
  header parses to the zero time: \<open>expires\<close> and \<open>date\<close> report such a header as not ok.
\<close>

theorem lifetime_zero_expires_counterexample:
  "\<not> (snd (lifetime parseUTC
            \<lparr>StatusCode = 200,
             Header = [''Expires'' \<mapsto> [''Mon, 01 Jan 0001 00:00:00 UTC''],
                       ''Date'' \<mapsto> [''Mon, 02 Jan 2006 15:04:05 UTC'']],
             Request = \<lparr>Method = ''GET'', ReqHeader = Map.empty\<rparr>\<rparr>)
       \<longleftrightarrow>
       (snd (maxage [''Expires'' \<mapsto> [''Mon, 01 Jan 0001 00:00:00 UTC''],
                     ''Date'' \<mapsto> [''Mon, 02 Jan 2006 15:04:05 UTC'']])
        \<or> (Get [''Expires'' \<mapsto> [''Mon, 01 Jan 0001 00:00:00 UTC''],
                 ''Date'' \<mapsto> [''Mon, 02 Jan 2006 15:04:05 UTC'']] ''Expires'' \<noteq> []
            \<and> parseUTC (Get [''Expires'' \<mapsto> [''Mon, 01 Jan 0001 00:00:00 UTC''],
                 ''Date'' \<mapsto> [''Mon, 02 Jan 2006 15:04:05 UTC'']] ''Expires'') \<noteq> None
            \<and> Get [''Expires'' \<mapsto> [''Mon, 01 Jan 0001 00:00:00 UTC''],
                 ''Date'' \<mapsto> [''Mon, 02 Jan 2006 15:04:05 UTC'']] ''Date'' \<noteq> []
            \<and> parseUTC (Get [''Expires'' \<mapsto> [''Mon, 01 Jan 0001 00:00:00 UTC''],
                 ''Date'' \<mapsto> [''Mon, 02 Jan 2006 15:04:05 UTC'']] ''Date'') \<noteq> None)))"
proof -
  let ?h = "[''Expires'' \<mapsto> [''Mon, 01 Jan 0001 00:00:00 UTC''],
             ''Date'' \<mapsto> [''Mon, 02 Jan 2006 15:04:05 UTC'']]"
  have ge: "Get ?h ''Expires'' = ''Mon, 01 Jan 0001 00:00:00 UTC''"
    by (simp add: Get_def canon_simps)
  have gd: "Get ?h ''Date'' = ''Mon, 02 Jan 2006 15:04:05 UTC''"
    by (simp add: Get_def canon_simps)
  have gc: "Get ?h ''Cache-Control'' = []"
    by (simp add: Get_def canon_simps)
  have ma: "maxage ?h = (0, False)"
    by (simp add: maxage_def gc split_empty)
  have ex: "expires parseUTC ?h = (0, False)"
    by (simp add: expires_def ge parse_zero IsZero_def)
  show ?thesis
    by (simp add: lifetime_def ma ex ge gd parse_zero parse_2006)
qed

theorem lifetime_ok_iff_witness:
  "lifetime parseUTC
     \<lparr>StatusCode = 200,
      Header = [''Expires'' \<mapsto> [''Mon, 02 Jan 2006 15:05:05 UTC''],
                ''Date'' \<mapsto> [''Mon, 02 Jan 2006 15:04:05 UTC'']],
      Request = \<lparr>Method = ''GET'', ReqHeader = Map.empty\<rparr>\<rparr> = (60000000000, True)
   \<and> lifetime parseUTC
     \<lparr>StatusCode = 200, Header = [''Cache-Control'' \<mapsto> [''max-age=5'']],
      Request = \<lparr>Method = ''GET'', ReqHeader = Map.empty\<rparr>\<rparr> = (5000000000, True)"
proof -
  let ?h = "[''Expires'' \<mapsto> [''Mon, 02 Jan 2006 15:05:05 UTC''],
             ''Date'' \<mapsto> [''Mon, 02 Jan 2006 15:04:05 UTC'']]"
  let ?r = "\<lparr>StatusCode = 200, Header = ?h, Request = \<lparr>Method = ''GET'', ReqHeader = Map.empty\<rparr>\<rparr>"
  let ?r5 = "\<lparr>StatusCode = 200, Header = [''Cache-Control'' \<mapsto> [''max-age=5'']],
      Request = \<lparr>Method = ''GET'', ReqHeader = Map.empty\<rparr>\<rparr>"
  have ge: "Get ?h ''Expires'' = ''Mon, 02 Jan 2006 15:05:05 UTC''"
    by (simp add: Get_def canon_simps)
  have gd: "Get ?h ''Date'' = ''Mon, 02 Jan 2006 15:04:05 UTC''"
    by (simp add: Get_def canon_simps)
  have gc: "Get ?h ''Cache-Control'' = []"
    by (simp add: Get_def canon_simps)
  have ma: "maxage ?h = (0, False)"
    by (simp add: maxage_def gc split_empty)
  have su: "Sub 63271811105000000000 63271811045000000000 = 60000000000"
    by (simp add: Sub_def)
  show ?thesis
    using lifetime_ok_iff [of parseUTC ?r 63271811105000000000 63271811045000000000]
      lifetime_ok_iff [of parseUTC ?r5 0 0]
    by (simp add: ma ge gd parse_2006 parse_2006_plus_minute su maxage_5)
qed

section \<open>Freshness under the aggressive strategy\<close>

lemma sint_day: "sint (24 * Hour) = 86400000000000"
  by (simp add: Hour_def Second_def)

lemma Aggressive_lifetime_pos: "0 < sint (Aggressive_lifetime a)"
  by (simp add: Aggressive_lifetime_def sint_day word_sless_alt)

lemma Since_sless:
  assumes "0 < sint L"
  shows "Since now t <s L \<longleftrightarrow> now - t < sint L"
proof -
  have up: "sint L < 2 ^ 63"
    using sint_lt [of L] by simp
  consider (fits) "- (2 ^ 63) \<le> now - t" "now - t \<le> 2 ^ 63 - 1"
    | (low) "now - t < - (2 ^ 63)" | (high) "2 ^ 63 - 1 < now - t"
    by linarith
  then show ?thesis
  proof cases
    case fits
    then show ?thesis
      by (simp add: Since_def word_sless_alt sint_Sub_exact)
  next
    case low
    then have "Sub now t = word_of_int (- (2 ^ 63))"
      by (simp add: Sub_def)
    then have "sint (Since now t) = - (2 ^ 63)"
      by (simp only: Since_def sint_word_of_int_64) simp
    then show ?thesis
      using low assms by (simp add: word_sless_alt)
  next
    case high
    then have "Sub now t = word_of_int (2 ^ 63 - 1)"
      by (simp add: Sub_def)
    then have "sint (Since now t) = 2 ^ 63 - 1"
      by (simp only: Since_def sint_word_of_int_64) simp
    then show ?thesis
      using high up by (simp add: word_sless_alt)
  qed
qed

lemma Aggressive_fresh_Fresh:
  "Aggressive_fresh a P now resp = Fresh \<longleftrightarrow>
     (\<exists>t. Get (Header resp) ''Date'' \<noteq> [] \<and> P (Get (Header resp) ''Date'') = Some t \<and> t \<noteq> 0
          \<and> now - t < sint (Aggressive_lifetime a))"
  by (auto simp add: Aggressive_fresh_def date_def IsZero_def Let_def
      Since_sless [OF Aggressive_lifetime_pos] split: option.splits)

text \<open>
  C6. \<open>Aggressive.fresh\<close> is Fresh exactly when the response has a \<open>Date\<close> header that
  parses and is not the zero time, and the time from that date to the reading of the clock
  is less than the lifetime; on a clock that reads \<open>2^63 - 1\<close> nanoseconds or more after the
  zero time (any date from the year 294 on) the zero time is too old for every lifetime, so
  there it is Fresh exactly when the header parses and the elapsed time is less than the
  lifetime. It is Fresh or Transparent, never Stale. The lifetime is the configured one when
  that is positive and 24 hours otherwise, the unconfigured lifetime being zero.
\<close>

theorem Aggressive_fresh_iff:
  "(2 ^ 63 - 1 \<le> now \<longrightarrow>
      (fresh P now (AggressiveStrategy a) resp = Fresh \<longleftrightarrow>
         (\<exists>t. Get (Header resp) ''Date'' \<noteq> [] \<and> P (Get (Header resp) ''Date'') = Some t
              \<and> now - t < sint (Aggressive_lifetime a))))
   \<and> (fresh P now (AggressiveStrategy a) resp = Fresh \<longleftrightarrow>
         (\<exists>t. Get (Header resp) ''Date'' \<noteq> [] \<and> P (Get (Header resp) ''Date'') = Some t
              \<and> t \<noteq> 0 \<and> now - t < sint (Aggressive_lifetime a)))
   \<and> (fresh P now (AggressiveStrategy a) resp = Fresh
        \<or> fresh P now (AggressiveStrategy a) resp = Transparent)
   \<and> fresh P now (AggressiveStrategy a) resp \<noteq> Stale
   \<and> Aggressive_lifetime a = (if 0 < sint (Lifetime a) then Lifetime a else 24 * Hour)
   \<and> sint (24 * Hour) = 24 * 3600 * 1000000000"
proof -
  have up: "sint (Aggressive_lifetime a) < 2 ^ 63"
    using sint_lt [of "Aggressive_lifetime a"] by simp
  have zero: "\<not> now - 0 < sint (Aggressive_lifetime a)" if "2 ^ 63 - 1 \<le> now"
    using that up by simp
  have a: "2 ^ 63 - 1 \<le> now \<longrightarrow>
      (fresh P now (AggressiveStrategy a) resp = Fresh \<longleftrightarrow>
         (\<exists>t. Get (Header resp) ''Date'' \<noteq> [] \<and> P (Get (Header resp) ''Date'') = Some t
              \<and> now - t < sint (Aggressive_lifetime a)))"
    using zero by (auto simp add: Aggressive_fresh_Fresh)
  have b: "fresh P now (AggressiveStrategy a) resp = Fresh
        \<or> fresh P now (AggressiveStrategy a) resp = Transparent"
    by (simp add: Aggressive_fresh_def split: prod.splits)
  have d: "Aggressive_lifetime a = (if 0 < sint (Lifetime a) then Lifetime a else 24 * Hour)"
    by (simp add: Aggressive_lifetime_def word_sless_alt)
  have ns: "fresh P now (AggressiveStrategy a) resp \<noteq> Stale"
    using b by auto
  have f: "fresh P now (AggressiveStrategy a) resp = Fresh \<longleftrightarrow>
         (\<exists>t. Get (Header resp) ''Date'' \<noteq> [] \<and> P (Get (Header resp) ''Date'') = Some t
              \<and> t \<noteq> 0 \<and> now - t < sint (Aggressive_lifetime a))"
    by (simp add: Aggressive_fresh_Fresh)
  have dy: "sint (24 * Hour) = 24 * 3600 * 1000000000"
    by (simp add: sint_day)
  show ?thesis
    using a f b ns d dy by (intro conjI)
qed

theorem Aggressive_fresh_iff_witness:
  "fresh parseUTC 63929088000000000000 (AggressiveStrategy \<lparr>Lifetime = 0\<rparr>)
     \<lparr>StatusCode = 200, Header = [''Date'' \<mapsto> [''Sat, 31 Oct 2026 22:00:00 UTC'']],
      Request = \<lparr>Method = ''GET'', ReqHeader = Map.empty\<rparr>\<rparr> = Fresh
   \<and> fresh parseUTC 63929088000000000000 (AggressiveStrategy \<lparr>Lifetime = 0\<rparr>)
     \<lparr>StatusCode = 200, Header = [''Date'' \<mapsto> [''Fri, 30 Oct 2026 00:00:00 UTC'']],
      Request = \<lparr>Method = ''GET'', ReqHeader = Map.empty\<rparr>\<rparr> = Transparent
   \<and> fresh parseUTC 63929088000000000000 (AggressiveStrategy \<lparr>Lifetime = 0\<rparr>)
     \<lparr>StatusCode = 200, Header = Map.empty,
      Request = \<lparr>Method = ''GET'', ReqHeader = Map.empty\<rparr>\<rparr> = Transparent"
proof -
  let ?now = "63929088000000000000 :: int"
  let ?a = "\<lparr>Lifetime = 0\<rparr>"
  let ?rq = "\<lparr>Method = ''GET'', ReqHeader = Map.empty\<rparr>"
  let ?r1 = "\<lparr>StatusCode = 200, Header = [''Date'' \<mapsto> [''Sat, 31 Oct 2026 22:00:00 UTC'']],
      Request = ?rq\<rparr>"
  let ?r2 = "\<lparr>StatusCode = 200, Header = [''Date'' \<mapsto> [''Fri, 30 Oct 2026 00:00:00 UTC'']],
      Request = ?rq\<rparr>"
  let ?r3 = "\<lparr>StatusCode = 200, Header = Map.empty, Request = ?rq\<rparr>"
  have clock: "2 ^ 63 - 1 \<le> ?now" by simp
  have g1: "Get (Header ?r1) ''Date'' = ''Sat, 31 Oct 2026 22:00:00 UTC''"
    by (simp add: Get_def canon_simps)
  have g2: "Get (Header ?r2) ''Date'' = ''Fri, 30 Oct 2026 00:00:00 UTC''"
    by (simp add: Get_def canon_simps)
  have g3: "Get (Header ?r3) ''Date'' = []"
    by (simp add: Get_def)
  have lt: "sint (Aggressive_lifetime ?a) = 86400000000000"
    by (simp add: Aggressive_lifetime_def sint_day word_sless_alt)
  have f1: "fresh parseUTC ?now (AggressiveStrategy ?a) ?r1 = Fresh"
    using Aggressive_fresh_iff [of ?now parseUTC ?a ?r1] clock
    by (simp only: g1 parse_2026_10_31 lt) simp
  have f2: "fresh parseUTC ?now (AggressiveStrategy ?a) ?r2 \<noteq> Fresh"
    using Aggressive_fresh_iff [of ?now parseUTC ?a ?r2] clock
    by (simp only: g2 parse_2026_10_30 lt) simp
  have f3: "fresh parseUTC ?now (AggressiveStrategy ?a) ?r3 \<noteq> Fresh"
    using Aggressive_fresh_iff [of ?now parseUTC ?a ?r3] clock
    by (simp only: g3) simp
  show ?thesis
    using f1 f2 f3 Aggressive_fresh_iff [of ?now parseUTC ?a ?r2]
      Aggressive_fresh_iff [of ?now parseUTC ?a ?r3]
    by blast
qed

section \<open>The max-age directive\<close>
















section \<open>Construction of the cache\<close>

lemma applyOptions_append:
  "applyOptions ca (xs @ ys) =
     (case applyOptions ca xs of Inl e \<Rightarrow> Inl e | Inr ca' \<Rightarrow> applyOptions ca' ys)"
  by (induction xs arbitrary: ca) (auto split: prod.splits option.splits)

lemma applyOptions_fails:
  "fst (opt ca') \<noteq> None \<Longrightarrow> \<exists>e. applyOptions ca' (opt # ys) = Inl e"
  by (auto split: prod.splits option.splits)

lemma applyOptions_nil_option:
  assumes "\<And>ca'. fst (opt ca') \<noteq> None"
  shows "\<exists>e. applyOptions ca (xs @ opt # ys) = Inl e"
proof (cases "applyOptions ca xs")
  case (Inl e)
  then show ?thesis by (simp add: applyOptions_append)
next
  case (Inr ca')
  obtain e where "applyOptions ca' (opt # ys) = Inl e"
    using assms applyOptions_fails [of opt ca' ys] by blast
  with Inr show ?thesis by (simp add: applyOptions_append)
qed

text \<open>
  C8. \<open>NewCache\<close> without options returns the cache of the defaults: a new memory store,
  the RFC7234 strategy and the default HTTP client. An option list that holds
  \<open>WithStrategy\<close>, \<open>WithStorage\<close> or \<open>WithClient\<close> of a nil value returns an error and no
  cache, whatever the other options are; alone, each returns its own message. Options are
  applied from left to right: the result for \<open>xs @ ys\<close> is that of applying \<open>ys\<close> to the
  cache that \<open>xs\<close> built, and an option added at the end of a list that builds a cache sets
  its field over whatever the earlier options put there, leaving the other fields.
\<close>

theorem NewCache_options:
  "NewCache [] = Inr \<lparr>storage = MemstoreStorage \<lparr>c = Map.empty\<rparr>, strategy = RFC7234,
                       client = DefaultClient\<rparr>
   \<and> (\<exists>e. NewCache (xs @ WithStrategy None # ys) = Inl e)
   \<and> (\<exists>e. NewCache (xs @ WithStorage None # ys) = Inl e)
   \<and> (\<exists>e. NewCache (xs @ WithClient None # ys) = Inl e)
   \<and> NewCache [WithStrategy None] = Inl ''httpcache: strategy must be non-nil''
   \<and> NewCache [WithStorage None] = Inl ''httpcache: storage must be non-nil''
   \<and> NewCache [WithClient None] = Inl ''httpcache: client must be non-nil''
   \<and> (NewCache xs = Inr ca \<longrightarrow>
        NewCache (xs @ [WithStrategy (Some s)]) = Inr (ca\<lparr>strategy := s\<rparr>)
        \<and> NewCache (xs @ [WithStorage (Some st)]) = Inr (ca\<lparr>storage := st\<rparr>)
        \<and> NewCache (xs @ [WithClient (Some cl)]) = Inr (ca\<lparr>client := cl\<rparr>))
   \<and> NewCache (xs @ ys) =
        (case NewCache xs of Inl e \<Rightarrow> Inl e | Inr ca' \<Rightarrow> applyOptions ca' ys)"
proof -
  have a: "\<exists>e. NewCache (xs @ WithStrategy None # ys) = Inl e"
    unfolding NewCache_def by (rule applyOptions_nil_option) (simp add: WithStrategy_def)
  have b: "\<exists>e. NewCache (xs @ WithStorage None # ys) = Inl e"
    unfolding NewCache_def by (rule applyOptions_nil_option) (simp add: WithStorage_def)
  have d: "\<exists>e. NewCache (xs @ WithClient None # ys) = Inl e"
    unfolding NewCache_def by (rule applyOptions_nil_option) (simp add: WithClient_def)
  have e: "NewCache (xs @ ys) =
        (case NewCache xs of Inl e \<Rightarrow> Inl e | Inr ca' \<Rightarrow> applyOptions ca' ys)"
    by (simp add: NewCache_def applyOptions_append)
  show ?thesis
    using a b d e
    by (simp add: NewCache_def applyOptions_append WithStrategy_def WithStorage_def WithClient_def)
qed

theorem NewCache_options_witness:
  "NewCache [WithClient (Some (OtherClient 1)), WithStrategy (Some (AggressiveStrategy \<lparr>Lifetime = 0\<rparr>)),
             WithClient (Some (OtherClient 2))]
     = Inr \<lparr>storage = MemstoreStorage \<lparr>c = Map.empty\<rparr>,
            strategy = AggressiveStrategy \<lparr>Lifetime = 0\<rparr>, client = OtherClient 2\<rparr>"
proof -
  have h: "NewCache [WithClient (Some (OtherClient 1)), WithStrategy (Some (AggressiveStrategy \<lparr>Lifetime = 0\<rparr>))]
     = Inr \<lparr>storage = MemstoreStorage \<lparr>c = Map.empty\<rparr>,
            strategy = AggressiveStrategy \<lparr>Lifetime = 0\<rparr>, client = OtherClient 1\<rparr>"
    by (simp add: NewCache_def WithClient_def WithStrategy_def)
  show ?thesis
    using NewCache_options [of "[WithClient (Some (OtherClient 1)), WithStrategy (Some (AggressiveStrategy \<lparr>Lifetime = 0\<rparr>))]"
       "[]" "\<lparr>storage = MemstoreStorage \<lparr>c = Map.empty\<rparr>,
            strategy = AggressiveStrategy \<lparr>Lifetime = 0\<rparr>, client = OtherClient 1\<rparr>" RFC7234 "OtherStorage 0" "OtherClient 2"] h
    by simp
qed
section \<open>The memory store\<close>

lemma Stores_other: "key \<notin> fst ` set kvs \<Longrightarrow> c (Memstore_Stores m kvs) key = c m key"
  by (induction kvs arbitrary: m) (auto simp add: Memstore_Store_def)

text \<open>
  C9. After any run of \<open>Store\<close> calls on a new memory store, \<open>Load\<close> of a key that none
  of the calls stored returns the nil slice and the nil error; and \<open>Load\<close> returns the
  nil error in every store and for every key.
\<close>

theorem Load_absent:
  "(key \<notin> fst ` set kvs \<longrightarrow>
      Memstore_Load (Memstore_Stores \<lparr>c = Map.empty\<rparr> kvs) key = (None, None))
   \<and> snd (Memstore_Load m key) = None"
  by (simp add: Stores_other Memstore_Load_def split: option.splits)

theorem Load_absent_witness:
  "Memstore_Load (Memstore_Stores \<lparr>c = Map.empty\<rparr> [(1, Some [104, 105]), (3, None)]) 2
     = (None, None)
   \<and> Memstore_Load (Memstore_Stores \<lparr>c = Map.empty\<rparr> [(1, Some [104, 105]), (3, None)]) 1
     = (Some [104, 105], None)"
  using Load_absent [of 2 "[(1, Some [104, 105]), (3, None)]" "\<lparr>c = Map.empty\<rparr>"]
  by (simp add: Memstore_Load_def Memstore_Store_def)

end
